theory Spec2Isabelle
  imports Main "HOL-Library.Word" "HOL-Library.Sublist"
begin

section \<open>The scheduler extender of cmd/main.go\<close>

text \<open>
  The extender is one Go file. Its pure part is \<open>nodeHasImage\<close> (the image-locality count)
  and the scoring function of \<open>ImagePriority\<close>; around it sit the HTTP handler built by
  \<open>PrioritizeRoute\<close>, the flag normalisation of \<open>init\<close> and the route registration of
  \<open>AddPrioritizeFunc\<close> and \<open>main\<close>. Logging through glog is left out everywhere: it
  changes neither results nor control flow. Where the fate of a panic is decided by the
  libraries the program calls (httprouter at registration, net/http while serving), their
  documented behaviour is part of the model.
\<close>

subsection \<open>Go values\<close>

type_synonym uint32 = "32 word"

text \<open>Go's \<open>int\<close> is taken at its 64-bit width and read as two's complement (\<open>sint\<close>).\<close>

type_synonym go_int = "64 word"

text \<open>The conversion \<open>int(score)\<close> of a \<open>uint32\<close>: zero extension.\<close>

definition int_of_uint32 :: "uint32 \<Rightarrow> go_int" where
  "int_of_uint32 score = ucast score"

text \<open>
  Go strings are byte sequences. \<open>strings.HasPrefix s p\<close> tests a leading copy of \<open>p\<close>;
  \<open>strings.Contains s substr\<close> searches \<open>substr\<close> at every start position of \<open>s\<close>,
  the empty \<open>substr\<close> being found in every string.
\<close>

definition strings_HasPrefix :: "string \<Rightarrow> string \<Rightarrow> bool" where
  "strings_HasPrefix s p = prefix p s"

fun strings_Contains :: "string \<Rightarrow> string \<Rightarrow> bool" where
  "strings_Contains [] substr = (substr = [])"
| "strings_Contains (c # s) substr = (prefix substr (c # s) \<or> strings_Contains s substr)"

text \<open>An error value, and what a Go call ends with: a normal return or a panic.\<close>

datatype error = io_EOF | Err string

datatype panic_value = PanicError error | NilDereference | IndexOutOfRange | PathRefused string

datatype 'a go = Return 'a | Panic panic_value

subsection \<open>The Kubernetes objects, as far as the code reads them\<close>

record Container =
  Name :: string
  Image :: string

record PodSpec =
  Containers :: "Container list"

record Pod =
  Name :: string
  Spec :: PodSpec

record ContainerImage =
  Names :: "string list"

record NodeStatus =
  Images :: "ContainerImage list"

record Node =
  Name :: string
  Status :: NodeStatus

record NodeList =
  Items :: "Node list"

text \<open>
  \<open>ExtenderArgs\<close> holds pointers: the code dereferences \<open>args.Pod\<close> and reads
  \<open>args.Nodes.Items\<close>. A nil pointer is \<open>None\<close>.
\<close>

record ExtenderArgs =
  Pod :: "Pod option"
  Nodes :: "NodeList option"

record HostPriority =
  Host :: string
  Score :: go_int

type_synonym HostPriorityList = "HostPriority list"

subsection \<open>nodeHasImage\<close>

text \<open>
  The three nested loops, innermost first. The loop state is the pair of the locals
  \<open>count\<close> and \<open>shouldBreak\<close>. The innermost loop leaves at the first name that
  contains the container's image, after \<open>count++\<close> (which wraps at \<open>2^32\<close>) and
  \<open>shouldBreak = true\<close>.
\<close>

fun namesLoop :: "string \<Rightarrow> string list \<Rightarrow> uint32 \<times> bool \<Rightarrow> uint32 \<times> bool" where
  "namesLoop ctnrImage [] (count, shouldBreak) = (count, shouldBreak)"
| "namesLoop ctnrImage (imgName # names) (count, shouldBreak) =
     (if strings_Contains imgName ctnrImage then (count + 1, True)
      else namesLoop ctnrImage names (count, shouldBreak))"

fun imagesLoop :: "string \<Rightarrow> ContainerImage list \<Rightarrow> uint32 \<times> bool \<Rightarrow> uint32 \<times> bool" where
  "imagesLoop ctnrImage [] (count, shouldBreak) = (count, shouldBreak)"
| "imagesLoop ctnrImage (img # imgs) (count, shouldBreak) =
     (if shouldBreak then (count, shouldBreak)
      else imagesLoop ctnrImage imgs (namesLoop ctnrImage (Names img) (count, shouldBreak)))"

fun containersLoop :: "Container list \<Rightarrow> ContainerImage list \<Rightarrow> uint32 \<Rightarrow> uint32" where
  "containersLoop [] nodeImages count = count"
| "containersLoop (ctnr # ctnrs) nodeImages count =
     containersLoop ctnrs nodeImages (fst (imagesLoop (Image ctnr) nodeImages (count, False)))"

definition nodeHasImage :: "Pod \<Rightarrow> ContainerImage list \<Rightarrow> string \<Rightarrow> uint32" where
  "nodeHasImage pod nodeImages nodeName =
     (if length nodeImages = 0 then 0
      else containersLoop (Containers (Spec pod)) nodeImages 0)"

subsection \<open>ImagePriority\<close>

text \<open>
  A scoring method returns a pointer to a list and an error; \<open>None\<close> is nil in both.
\<close>

type_synonym Func_result = "HostPriorityList option \<times> error option"

record PrioritizeMethod =
  Name :: string
  Func :: "Pod \<Rightarrow> Node list \<Rightarrow> Func_result go"

text \<open>\<open>make([]HostPriority, n)\<close>: \<open>n\<close> zero values.\<close>

definition make_HostPriorityList :: "nat \<Rightarrow> HostPriorityList" where
  "make_HostPriorityList n = replicate n \<lparr>Host = [], Score = 0\<rparr>"

text \<open>
  The loop \<open>for i, node := range nodes\<close>, from index \<open>i\<close> on. The assignment
  \<open>priorityList[i] = ...\<close> panics in Go when \<open>i\<close> is out of range.
\<close>

fun rangeNodes :: "Pod \<Rightarrow> nat \<Rightarrow> Node list \<Rightarrow> HostPriorityList \<Rightarrow> HostPriorityList go" where
  "rangeNodes pod i [] priorityList = Return priorityList"
| "rangeNodes pod i (node # nodes) priorityList =
     (if i < length priorityList
      then rangeNodes pod (Suc i) nodes
             (priorityList[i := \<lparr>Host = Node.Name node,
                Score = int_of_uint32 (nodeHasImage pod (Images (Status node)) (Node.Name node))\<rparr>])
      else Panic IndexOutOfRange)"

definition ImagePriority_Func :: "Pod \<Rightarrow> Node list \<Rightarrow> Func_result go" where
  "ImagePriority_Func pod nodes =
     (case rangeNodes pod 0 nodes (make_HostPriorityList (length nodes)) of
        Panic p \<Rightarrow> Panic p
      | Return priorityList \<Rightarrow> Return (Some priorityList, None))"

definition ImagePriority :: PrioritizeMethod where
  "ImagePriority = \<lparr>Name = ''image_score'', Func = ImagePriority_Func\<rparr>"

text \<open>\<open>Handler\<close> dereferences both pointers of the arguments before the call.\<close>

definition Handler :: "PrioritizeMethod \<Rightarrow> ExtenderArgs \<Rightarrow> Func_result go" where
  "Handler p args =
     (case Pod args of
        None \<Rightarrow> Panic NilDereference
      | Some pod \<Rightarrow>
          (case Nodes args of
             None \<Rightarrow> Panic NilDereference
           | Some nodes \<Rightarrow> Func p pod (Items nodes)))"

subsection \<open>The HTTP handler\<close>

text \<open>
  A request is its body: \<open>None\<close> is the nil \<open>r.Body\<close>, \<open>Some b\<close> a reader that
  yields the bytes \<open>b\<close> (possibly none). The response writer is the state the handler
  changes: the header map, the status once it is written, and the bytes written.
\<close>

record Request =
  Body :: "string option"

record ResponseWriter =
  header :: "string \<rightharpoonup> string"
  status :: "nat option"
  written :: string

definition WriteHeader :: "ResponseWriter \<Rightarrow> nat \<Rightarrow> ResponseWriter" where
  "WriteHeader w code = (if status w = None then w\<lparr>status := Some code\<rparr> else w)"

definition Write :: "ResponseWriter \<Rightarrow> string \<Rightarrow> ResponseWriter" where
  "Write w b = (let w' = WriteHeader w 200 in w'\<lparr>written := written w' @ b\<rparr>)"

text \<open>
  \<open>http.Error\<close>: plain-text headers, the status, then the message and a newline.
\<close>

definition http_Error :: "ResponseWriter \<Rightarrow> string \<Rightarrow> nat \<Rightarrow> ResponseWriter" where
  "http_Error w msg code =
     Write (WriteHeader
              (w\<lparr>header := ((header w)(''Content-Length'' := None))
                    (''Content-Type'' \<mapsto> ''text/plain; charset=utf-8'',
                     ''X-Content-Type-Options'' \<mapsto> ''nosniff'')\<rparr>) code)
           (msg @ [CHR 0x0A])"

definition checkRequestBody :: "ResponseWriter \<Rightarrow> Request \<Rightarrow> bool \<times> ResponseWriter" where
  "checkRequestBody w r =
     (if Body r = None
      then (False, http_Error w ''the request is empty, expecting a pod and a list of nodes!'' 400)
      else (True, w))"

text \<open>
  \<open>json.NewDecoder(body).Decode\<close> and \<open>json.Marshal\<close> belong to the Go library. The
  decoder is a parameter \<open>unmarshal\<close>, except for the one case the library documents and
  the handler depends on: an input without any byte ends the stream before a value, and
  \<open>Decode\<close> returns \<open>io.EOF\<close>. The encoder is the parameter \<open>marshal\<close>.
\<close>

definition Decode :: "(string \<Rightarrow> error + ExtenderArgs) \<Rightarrow> string \<Rightarrow> error + ExtenderArgs" where
  "Decode unmarshal b = (if b = [] then Inl io_EOF else unmarshal b)"

text \<open>
  The closure returned by \<open>PrioritizeRoute\<close>. It ends either by returning or by one of
  the three \<open>panic(err)\<close> calls (or a panic of the scoring method); the writer comes back
  as the handler left it.
\<close>

definition PrioritizeRoute ::
  "(string \<Rightarrow> error + ExtenderArgs) \<Rightarrow> (HostPriorityList option \<Rightarrow> error + string) \<Rightarrow>
   PrioritizeMethod \<Rightarrow> ResponseWriter \<Rightarrow> Request \<Rightarrow> unit go \<times> ResponseWriter" where
  "PrioritizeRoute unmarshal marshal priorityMethod w r =
     (case checkRequestBody w r of
        (False, w') \<Rightarrow> (Return (), w')
      | (True, w') \<Rightarrow>
          (case Body r of
             None \<Rightarrow> (Panic NilDereference, w')
           | Some body \<Rightarrow>
               (case Decode unmarshal body of
                  Inl err \<Rightarrow> (Panic (PanicError err), w')
                | Inr extenderArgs \<Rightarrow>
                    (case Handler priorityMethod extenderArgs of
                       Panic p \<Rightarrow> (Panic p, w')
                     | Return (list, Some err) \<Rightarrow> (Panic (PanicError err), w')
                     | Return (hostPriorityList, None) \<Rightarrow>
                         (case marshal hostPriorityList of
                            Inl err \<Rightarrow> (Panic (PanicError err), w')
                          | Inr resultBody \<Rightarrow>
                              (Return (),
                               Write (WriteHeader
                                        (w'\<lparr>header := (header w')(''Content-Type'' \<mapsto> ''application/json'')\<rparr>)
                                        200)
                                     resultBody))))))"

subsection \<open>Flags and routes\<close>

text \<open>
  The three package variables after \<open>flag.Parse\<close>, and \<open>init\<close> as a function from
  their parsed values to their final values.
\<close>

record flags =
  httpAddr :: string
  apiPrefix :: string
  prioritiesPrefix :: string

definition init :: "flags \<Rightarrow> flags" where
  "init f =
     (let httpAddr' = (if \<not> strings_Contains (httpAddr f) '':'' then '':'' @ httpAddr f else httpAddr f);
          apiPrefix' = (if \<not> strings_HasPrefix (apiPrefix f) ''/'' then ''/'' @ apiPrefix f else apiPrefix f);
          prioritiesPrefix' =
            (if \<not> strings_HasPrefix (prioritiesPrefix f) ''/'' then ''/'' @ prioritiesPrefix f
             else prioritiesPrefix f)
      in \<lparr>httpAddr = httpAddr', apiPrefix = apiPrefix', prioritiesPrefix = apiPrefix' @ prioritiesPrefix'\<rparr>)"

text \<open>
  The router is the list of its routes, in registration order; a route keeps the method
  whose \<open>PrioritizeRoute\<close> closure serves it.
\<close>

record Route =
  verb :: string
  path :: string
  handle :: PrioritizeMethod

text \<open>
  \<open>router.POST\<close> belongs to httprouter, which panics on a path it refuses. Two refusals
  are documented and independent of the routes already present: a path must begin with a
  slash, and a catch-all \<open>*\<close> is only allowed in the last path element, so a \<open>*\<close>
  with a slash somewhere after it is refused. Every other check of the library (names of
  wildcards, conflicts with routes already registered) is the parameter \<open>accepts\<close>.
\<close>

fun catch_all_inside :: "string \<Rightarrow> bool" where
  "catch_all_inside [] = False"
| "catch_all_inside (c # s) = ((c = CHR ''*'' \<and> CHR ''/'' \<in> set s) \<or> catch_all_inside s)"

definition router_POST ::
  "(Route list \<Rightarrow> string \<Rightarrow> bool) \<Rightarrow> Route list \<Rightarrow> string \<Rightarrow> PrioritizeMethod \<Rightarrow> Route list go" where
  "router_POST accepts router p priorityMethod =
     (if strings_HasPrefix p ''/'' \<and> \<not> catch_all_inside p \<and> accepts router p
      then Return (router @ [\<lparr>verb = ''POST'', path = p, handle = priorityMethod\<rparr>])
      else Panic (PathRefused p))"

definition AddPrioritizeFunc ::
  "(Route list \<Rightarrow> string \<Rightarrow> bool) \<Rightarrow> flags \<Rightarrow> Route list \<Rightarrow> PrioritizeMethod \<Rightarrow> Route list go" where
  "AddPrioritizeFunc accepts g router priorityMethod =
     (let p = prioritiesPrefix g @ ''/'' @ PrioritizeMethod.Name priorityMethod
      in router_POST accepts router p priorityMethod)"

definition priorities :: "PrioritizeMethod list" where
  "priorities = [ImagePriority]"

text \<open>
  The loop of \<open>main\<close> over its methods: a panic of a registration ends the loop and
  leaves \<open>main\<close>.
\<close>

fun registerAll ::
  "(Route list \<Rightarrow> string \<Rightarrow> bool) \<Rightarrow> flags \<Rightarrow> Route list \<Rightarrow> PrioritizeMethod list \<Rightarrow> Route list go" where
  "registerAll accepts g router [] = Return router"
| "registerAll accepts g router (p # ps) =
     (case AddPrioritizeFunc accepts g router p of
        Panic v \<Rightarrow> Panic v
      | Return router' \<Rightarrow> registerAll accepts g router' ps)"

definition main_router :: "(Route list \<Rightarrow> string \<Rightarrow> bool) \<Rightarrow> flags \<Rightarrow> Route list go" where
  "main_router accepts f = registerAll accepts (init f) [] priorities"

subsection \<open>The process\<close>

text \<open>
  \<open>main\<close> has no recover: when a registration panics the process exits before it
  listens, otherwise \<open>http.ListenAndServe\<close> serves the registered routes. (A failure to
  bind the address is left out.)
\<close>

datatype process = Serving | Exited

definition main_process ::
  "(Route list \<Rightarrow> string \<Rightarrow> bool) \<Rightarrow> flags \<Rightarrow> process \<times> Route list" where
  "main_process accepts f =
     (case main_router accepts f of
        Panic v \<Rightarrow> (Exited, [])
      | Return router \<Rightarrow> (Serving, router))"

text \<open>
  The server of net/http calls a handler on a fresh response writer and under a deferred
  recover. When the handler returns, the response goes out, with status 200 if the handler
  has set none. When the handler panics, the server logs the panic and closes the
  connection without a response; it goes on serving. The router made by
  \<open>httprouter.New\<close> has no panic handler of its own, so a panic of the closure reaches
  the server.
\<close>

datatype reply = Answered ResponseWriter | ConnectionClosed

definition fresh_writer :: ResponseWriter where
  "fresh_writer = \<lparr>header = Map.empty, status = None, written = []\<rparr>"

definition conn_serve ::
  "(ResponseWriter \<Rightarrow> Request \<Rightarrow> unit go \<times> ResponseWriter) \<Rightarrow> Request \<Rightarrow> reply \<times> process" where
  "conn_serve handler r =
     (case handler fresh_writer r of
        (Return u, w) \<Rightarrow> (Answered (WriteHeader w 200), Serving)
      | (Panic v, w) \<Rightarrow> (ConnectionClosed, Serving))"

subsection \<open>What the scan looks at\<close>

text \<open>
  The calls of \<open>strings.Contains\<close> that \<open>nodeHasImage\<close> makes, in order, each as the
  pair of its arguments. The functions follow the three loops; the flag of the middle
  loop is the \<open>shouldBreak\<close> the inner loop has left behind.
\<close>

fun namesScan :: "string \<Rightarrow> string list \<Rightarrow> (string \<times> string) list" where
  "namesScan ctnrImage [] = []"
| "namesScan ctnrImage (imgName # names) =
     (imgName, ctnrImage) #
       (if strings_Contains imgName ctnrImage then [] else namesScan ctnrImage names)"

fun imagesScan :: "string \<Rightarrow> ContainerImage list \<Rightarrow> bool \<Rightarrow> (string \<times> string) list" where
  "imagesScan ctnrImage [] shouldBreak = []"
| "imagesScan ctnrImage (img # imgs) shouldBreak =
     (if shouldBreak then []
      else namesScan ctnrImage (Names img) @
           imagesScan ctnrImage imgs (snd (namesLoop ctnrImage (Names img) (0, shouldBreak))))"

fun containersScan :: "Container list \<Rightarrow> ContainerImage list \<Rightarrow> (string \<times> string) list" where
  "containersScan [] nodeImages = []"
| "containersScan (ctnr # ctnrs) nodeImages =
     imagesScan (Image ctnr) nodeImages False @ containersScan ctnrs nodeImages"

definition nodeHasImage_scan :: "Pod \<Rightarrow> ContainerImage list \<Rightarrow> (string \<times> string) list" where
  "nodeHasImage_scan pod nodeImages =
     (if length nodeImages = 0 then [] else containersScan (Containers (Spec pod)) nodeImages)"

text \<open>A comparison that succeeded, and the number of those in a trace.\<close>

definition is_hit :: "string \<times> string \<Rightarrow> bool" where
  "is_hit probe = strings_Contains (fst probe) (snd probe)"

definition hits :: "(string \<times> string) list \<Rightarrow> nat" where
  "hits probes = length (filter is_hit probes)"

subsection \<open>The specification's vocabulary\<close>

text \<open>
  A container has a match on a node when some name of some image record of the node
  contains the container's image reference as a contiguous substring (\<open>sublist\<close>).
\<close>

definition has_match :: "ContainerImage list \<Rightarrow> Container \<Rightarrow> bool" where
  "has_match nodeImages ctnr =
     list_ex (\<lambda>img. list_ex (\<lambda>imgName. sublist (Image ctnr) imgName) (Names img)) nodeImages"

definition matching_containers :: "Pod \<Rightarrow> ContainerImage list \<Rightarrow> Container list" where
  "matching_containers pod nodeImages = filter (has_match nodeImages) (Containers (Spec pod))"

text \<open>The score entry of one node: its name and its converted count.\<close>

definition score_entry :: "Pod \<Rightarrow> Node \<Rightarrow> HostPriority" where
  "score_entry pod node =
     \<lparr>Host = Node.Name node,
      Score = int_of_uint32 (nodeHasImage pod (Images (Status node)) (Node.Name node))\<rparr>"

text \<open>A path prefix with its leading slash, as the interface section describes it.\<close>

fun with_leading_slash :: "string \<Rightarrow> string" where
  "with_leading_slash [] = ''/''"
| "with_leading_slash (c # s) = (if c = CHR ''/'' then c # s else CHR ''/'' # c # s)"

text \<open>The route of a method over the configured prefixes, each with its leading slash.\<close>

definition route_path :: "flags \<Rightarrow> PrioritizeMethod \<Rightarrow> string" where
  "route_path f M =
     with_leading_slash (apiPrefix f) @ with_leading_slash (prioritiesPrefix f) @ ''/'' @
       PrioritizeMethod.Name M"

subsection \<open>Sample inputs\<close>





definition nginx_pod :: Pod where
  "nginx_pod = \<lparr>Pod.Name = ''web'',
     Spec = \<lparr>Containers = [\<lparr>Container.Name = ''c0'', Image = ''nginx:1.7.9''\<rparr>]\<rparr>\<rparr>"

definition node_A :: Node where
  "node_A = \<lparr>Node.Name = ''A'',
     Status = \<lparr>Images = [\<lparr>Names = [''docker.io/library/nginx:1.7.9'']\<rparr>]\<rparr>\<rparr>"


definition cache_pod :: Pod where
  "cache_pod = \<lparr>Pod.Name = ''cache'',
     Spec = \<lparr>Containers = [\<lparr>Container.Name = ''c0'', Image = ''nginx''\<rparr>,
                          \<lparr>Container.Name = ''c1'', Image = ''redis''\<rparr>]\<rparr>\<rparr>"

definition cache_images :: "ContainerImage list" where
  "cache_images = [\<lparr>Names = [''nginx:latest'']\<rparr>, \<lparr>Names = [''redis:6'']\<rparr>]"

definition untagged_container :: Container where
  "untagged_container = \<lparr>Container.Name = ''c'', Image = ''nginx''\<rparr>"

definition latest_images :: "ContainerImage list" where
  "latest_images = [\<lparr>Names = [''nginx:latest'']\<rparr>]"

text \<open>A pod with \<open>2^32\<close> copies of one container.\<close>

definition crowded_pod :: Pod where
  "crowded_pod = \<lparr>Pod.Name = ''crowd'',
     Spec = \<lparr>Containers = replicate (2 ^ 32) untagged_container\<rparr>\<rparr>"



definition idle_pod :: Pod where
  "idle_pod = \<lparr>Pod.Name = ''idle'', Spec = \<lparr>Containers = []\<rparr>\<rparr>"

definition strict_unmarshal :: "string \<Rightarrow> error + ExtenderArgs" where
  "strict_unmarshal b = Inl (Err ''invalid character'')"

definition null_marshal :: "HostPriorityList option \<Rightarrow> error + string" where
  "null_marshal l = Inr ''null''"

section \<open>The image-locality score\<close>

subsection \<open>The loops in closed form\<close>

lemma strings_Contains_sublist: "strings_Contains s substr = sublist substr s"
  by (induction s) (simp_all add: sublist_Cons_right)

lemma strings_Contains_iff: "strings_Contains s substr \<longleftrightarrow> (\<exists>ps ss. s = ps @ substr @ ss)"
  by (simp add: strings_Contains_sublist sublist_def)

lemma namesLoop_eq:
  "namesLoop r names (c, b) =
     (if list_ex (\<lambda>imgName. sublist r imgName) names then (c + 1, True) else (c, b))"
  by (induction names) (simp_all add: strings_Contains_sublist)

lemma imagesLoop_broken: "imagesLoop r imgs (c, True) = (c, True)"
  by (cases imgs) simp_all

lemma imagesLoop_eq:
  "imagesLoop r imgs (c, False) =
     (if list_ex (\<lambda>img. list_ex (\<lambda>imgName. sublist r imgName) (Names img)) imgs
      then (c + 1, True) else (c, False))"
  by (induction imgs) (simp_all add: namesLoop_eq imagesLoop_broken)

lemma containersLoop_eq:
  "containersLoop ctnrs imgs c = c + of_nat (length (filter (has_match imgs) ctnrs))"
  by (induction ctnrs arbitrary: c) (simp_all add: imagesLoop_eq has_match_def)

lemma nodeHasImage_of_nat:
  "nodeHasImage pod imgs n = of_nat (length (matching_containers pod imgs))"
  by (cases imgs)
    (simp_all add: nodeHasImage_def containersLoop_eq has_match_def matching_containers_def)

lemma unat_nodeHasImage_le:
  "unat (nodeHasImage pod imgs n) \<le> length (Containers (Spec pod))"
proof -
  have "unat (nodeHasImage pod imgs n) \<le> length (matching_containers pod imgs)"
    by (simp add: nodeHasImage_of_nat unat_of_nat)
  also have "\<dots> \<le> length (Containers (Spec pod))"
    by (simp add: matching_containers_def)
  finally show ?thesis .
qed

text \<open>Zero extension to 64 bits keeps the value, and the sign bit stays clear.\<close>

lemma sint_int_of_uint32: "sint (int_of_uint32 x) = int (unat x)"
proof -
  have lt: "uint x < 2 ^ 32"
    using uint_bounded [of x] by simp
  have "uint x < 2 ^ 63"
    using lt by (rule less_trans) simp
  moreover have "- (2 ^ 63) \<le> uint x"
    using uint_nonnegative [of x] by (rule order_trans [rotated]) simp
  ultimately have "signed_take_bit 63 (uint x) = uint x"
    by (rule signed_take_bit_int_eq_self [rotated])
  then show ?thesis
    by (simp add: int_of_uint32_def signed_ucast_eq)
qed

text \<open>
  The trace agrees with the counter: every comparison that succeeds is one \<open>count++\<close>,
  and the scan for one container has at most one of them.
\<close>

lemma hits_append: "hits (xs @ ys) = hits xs + hits ys"
  by (simp add: hits_def)

lemma hits_namesScan:
  "hits (namesScan r names) = (if list_ex (\<lambda>imgName. sublist r imgName) names then 1 else 0)"
  by (induction names) (simp_all add: hits_def is_hit_def strings_Contains_sublist)

lemma hits_imagesScan_broken: "hits (imagesScan r imgs True) = 0"
  by (cases imgs) (simp_all add: hits_def)

lemma hits_imagesScan:
  "hits (imagesScan r imgs False) =
     (if list_ex (\<lambda>img. list_ex (\<lambda>imgName. sublist r imgName) (Names img)) imgs then 1 else 0)"
  by (induction imgs)
    (simp_all add: hits_append hits_namesScan namesLoop_eq hits_imagesScan_broken, simp add: hits_def)

lemma hits_containersScan:
  "hits (containersScan ctnrs imgs) = length (filter (has_match imgs) ctnrs)"
  by (induction ctnrs) (simp_all add: hits_append hits_imagesScan has_match_def, simp add: hits_def)

lemma hits_nodeHasImage_scan:
  "of_nat (hits (nodeHasImage_scan pod imgs)) = nodeHasImage pod imgs n"
proof (cases imgs)
  case Nil
  then show ?thesis
    by (simp add: nodeHasImage_scan_def nodeHasImage_def hits_def)
next
  case (Cons img rest)
  then have "nodeHasImage_scan pod imgs = containersScan (Containers (Spec pod)) imgs"
    by (simp add: nodeHasImage_scan_def)
  then show ?thesis
    by (simp only: hits_containersScan nodeHasImage_of_nat matching_containers_def)
qed

subsection \<open>The count and its width\<close>

lemma has_match_latest: "has_match latest_images untagged_container"
  by (simp add: has_match_def latest_images_def untagged_container_def sublist_code prefix_code)

lemma matching_crowded:
  "matching_containers crowded_pod latest_images = replicate (2 ^ 32) untagged_container"
  by (simp add: matching_containers_def crowded_pod_def has_match_latest)

text \<open>
  Claim C1, as the code has it. The score of \<open>nodeHasImage\<close> is the number of containers
  of the pod that have a match among the node's image names, a match being substring
  containment of the container's image reference in a reported name; a container counts
  once however many names match. The counter is a \<open>uint32\<close>, so the score is that
  number modulo \<open>2^32\<close>, and it is the number itself for every pod with fewer than
  \<open>2^32\<close> containers.
\<close>

theorem nodeHasImage_counts_matches_mod:
  "unat (nodeHasImage pod nodeImages nodeName) =
     length (matching_containers pod nodeImages) mod 2 ^ 32 \<and>
   (length (Containers (Spec pod)) < 2 ^ 32 \<longrightarrow>
      unat (nodeHasImage pod nodeImages nodeName) = length (matching_containers pod nodeImages))"
proof -
  have eq: "unat (nodeHasImage pod nodeImages nodeName) =
      length (matching_containers pod nodeImages) mod 2 ^ 32"
    by (simp add: nodeHasImage_of_nat unat_of_nat)
  have "length (matching_containers pod nodeImages) \<le> length (Containers (Spec pod))"
    by (simp add: matching_containers_def)
  then have "length (matching_containers pod nodeImages) mod 2 ^ 32 =
      length (matching_containers pod nodeImages)"
    if "length (Containers (Spec pod)) < 2 ^ 32"
    using that by simp
  with eq show ?thesis by simp
qed

theorem nodeHasImage_counts_matches_mod_witness:
  "length (Containers (Spec cache_pod)) < 2 ^ 32 \<and>
   unat (nodeHasImage cache_pod cache_images ''A'') =
     length (matching_containers cache_pod cache_images) \<and>
   length (matching_containers cache_pod cache_images) = 2"
proof -
  have h: "length (Containers (Spec cache_pod)) < 2 ^ 32"
    by (simp add: cache_pod_def)
  have two: "length (matching_containers cache_pod cache_images) = 2"
    by (simp add: matching_containers_def has_match_def cache_pod_def cache_images_def
        sublist_code prefix_code)
  show ?thesis
    using h two nodeHasImage_counts_matches_mod [of cache_pod cache_images "''A''"] by simp
qed

text \<open>
  Claim C1 as stated, without the width, fails for a pod of \<open>2^32\<close> containers that all
  match: the counter has wrapped to 0.
\<close>

theorem nodeHasImage_count_counterexample:
  "nodeHasImage crowded_pod latest_images ''A'' = 0 \<and>
   length (matching_containers crowded_pod latest_images) = 4294967296"
  by (simp add: nodeHasImage_of_nat matching_crowded)

text \<open>
  Claim C7. A node with an empty image list scores 0, and \<open>nodeHasImage\<close> makes no
  comparison at all for it; a pod with an empty container list scores 0 on every node.
\<close>

theorem empty_inputs_score_zero:
  "nodeHasImage pod [] nodeName = 0 \<and> nodeHasImage_scan pod [] = [] \<and>
   (Containers (Spec pod) = [] \<longrightarrow> nodeHasImage pod nodeImages nodeName = 0)"
  by (simp add: nodeHasImage_def nodeHasImage_scan_def)

theorem empty_inputs_score_zero_witness:
  "Containers (Spec idle_pod) = [] \<and> nodeHasImage idle_pod latest_images ''A'' = 0"
proof -
  have h: "Containers (Spec idle_pod) = []"
    by (simp add: idle_pod_def)
  show ?thesis
    using h empty_inputs_score_zero [of idle_pod "''A''" latest_images] by simp
qed

subsection \<open>The empty image reference\<close>




section \<open>The score list of image\_score\<close>

text \<open>
  The range loop fills the made list from index \<open>i\<close> on and never leaves its bounds.
\<close>

lemma rangeNodes_eq:
  "i + length nodes \<le> length pl \<Longrightarrow>
   rangeNodes pod i nodes pl =
     Return (take i pl @ map (score_entry pod) nodes @ drop (i + length nodes) pl)"
proof (induction nodes arbitrary: i pl)
  case Nil
  then show ?case by simp
next
  case (Cons node nodes)
  let ?pl = "pl[i := score_entry pod node]"
  have i: "i < length pl"
    using Cons.prems by simp
  have "Suc i + length nodes \<le> length ?pl"
    using Cons.prems by simp
  then have "rangeNodes pod (Suc i) nodes ?pl =
      Return (take (Suc i) ?pl @ map (score_entry pod) nodes @ drop (Suc i + length nodes) ?pl)"
    by (rule Cons.IH)
  moreover have "take (Suc i) ?pl = take i pl @ [score_entry pod node]"
    using i by (simp add: take_Suc_conv_app_nth)
  moreover have "drop (Suc i + length nodes) ?pl = drop (Suc i + length nodes) pl"
    by simp
  ultimately show ?case
    using i by (simp add: score_entry_def)
qed

lemma ImagePriority_Func_eq:
  "ImagePriority_Func pod nodes = Return (Some (map (score_entry pod) nodes), None)"
  by (simp add: ImagePriority_Func_def make_HostPriorityList_def rangeNodes_eq)

lemma Func_ImagePriority: "Func ImagePriority = ImagePriority_Func"
  by (simp add: ImagePriority_def)

lemma hosts_score_entries: "map (Host \<circ> score_entry pod) nodes = map Node.Name nodes"
  by (simp add: score_entry_def comp_def)

lemma score_entry_bounds:
  "0 \<le> sint (Score (score_entry pod node)) \<and>
   sint (Score (score_entry pod node)) \<le> int (length (Containers (Spec pod)))"
proof -
  let ?score = "nodeHasImage pod (Images (Status node)) (Node.Name node)"
  have "int (unat ?score) \<le> int (length (Containers (Spec pod)))"
    using unat_nodeHasImage_le [of pod "Images (Status node)" "Node.Name node"]
    by (simp only: of_nat_le_iff)
  moreover have "0 \<le> int (unat ?score)"
    by (rule of_nat_0_le_iff)
  moreover have "Score (score_entry pod node) = int_of_uint32 ?score"
    by (simp add: score_entry_def)
  ultimately show ?thesis
    by (simp only: sint_int_of_uint32)
qed

lemma score_entries_bounds:
  "list_all (\<lambda>e. 0 \<le> sint (Score e) \<and> sint (Score e) \<le> int (length (Containers (Spec pod))))
     (map (score_entry pod) nodes)"
proof (induction nodes)
  case Nil
  show ?case by simp
next
  case (Cons node nodes)
  then show ?case
    using score_entry_bounds [of pod node] by simp
qed

text \<open>
  Claim C5. For every pod and node, the score of \<open>nodeHasImage\<close>, converted to \<open>int\<close>
  as the score list stores it, is not negative and is at most the number of containers of
  the pod; so is every score in the list that image\_score returns.
\<close>

theorem score_bounds:
  "0 \<le> sint (int_of_uint32 (nodeHasImage pod nodeImages nodeName)) \<and>
   sint (int_of_uint32 (nodeHasImage pod nodeImages nodeName))
     \<le> int (length (Containers (Spec pod))) \<and>
   (\<exists>l. Func ImagePriority pod nodes = Return (Some l, None) \<and>
       list_all (\<lambda>e. 0 \<le> sint (Score e) \<and>
                      sint (Score e) \<le> int (length (Containers (Spec pod)))) l)"
proof -
  let ?score = "nodeHasImage pod nodeImages nodeName"
  have "int (unat ?score) \<le> int (length (Containers (Spec pod)))"
    using unat_nodeHasImage_le [of pod nodeImages nodeName] by (simp only: of_nat_le_iff)
  moreover have "0 \<le> int (unat ?score)"
    by (rule of_nat_0_le_iff)
  moreover have "\<exists>l. Func ImagePriority pod nodes = Return (Some l, None) \<and>
       list_all (\<lambda>e. 0 \<le> sint (Score e) \<and>
                      sint (Score e) \<le> int (length (Containers (Spec pod)))) l"
    using score_entries_bounds [of pod nodes]
    by (simp only: Func_ImagePriority ImagePriority_Func_eq) blast
  ultimately show ?thesis
    by (simp only: sint_int_of_uint32)
qed

text \<open>
  Claim C2, as the code has it. For every pod and every list of nodes, image\_score returns
  a list as long as the node list; its host names are the node names, in the same order, so
  they are free of duplicates exactly when the names of the input nodes are.
\<close>

theorem score_list_length_and_hosts:
  "\<exists>l. Func ImagePriority pod nodes = Return (Some l, None) \<and>
       length l = length nodes \<and>
       map Host l = map Node.Name nodes \<and>
       distinct (map Host l) = distinct (map Node.Name nodes)"
  by (simp add: Func_ImagePriority ImagePriority_Func_eq hosts_score_entries)

text \<open>
  Claim C2 as stated, for every node list, fails when a node is listed twice: both entries
  come back.
\<close>

theorem duplicate_hosts_counterexample:
  "Func ImagePriority nginx_pod [node_A, node_A] =
     Return (Some [\<lparr>Host = ''A'', Score = 1\<rparr>, \<lparr>Host = ''A'', Score = 1\<rparr>], None) \<and>
   \<not> distinct (map Host [\<lparr>Host = ''A'', Score = 1\<rparr>, \<lparr>Host = ''A'', Score = 1\<rparr>])"
  by (simp add: ImagePriority_def ImagePriority_Func_def make_HostPriorityList_def
      nginx_pod_def node_A_def nodeHasImage_def int_of_uint32_def)



text \<open>
  Claim C10. For every input the scoring function of image\_score returns its list with a
  nil error, so \<open>Handler\<close> never hands the closure of \<open>PrioritizeRoute\<close> a non-nil
  error: the branch \<open>panic(err)\<close> after the call is not taken for this method.
\<close>

theorem image_score_returns_no_error:
  "(\<exists>l. Func ImagePriority pod nodes = Return (Some l, None)) \<and>
   Handler ImagePriority extenderArgs \<noteq> Return (hostPriorityList, Some err)"
  by (simp add: Handler_def Func_ImagePriority ImagePriority_Func_eq split: option.split)

section \<open>The handler\<close>

text \<open>A nil body is answered with status 400 and the handler returns.\<close>

lemma nil_body_answer:
  assumes "Body r = None"
  shows "PrioritizeRoute unmarshal marshal priorityMethod w r =
     (Return (), http_Error w ''the request is empty, expecting a pod and a list of nodes!'' 400)"
  using assms by (simp add: PrioritizeRoute_def checkRequestBody_def)

lemma http_Error_fresh:
  "status (http_Error fresh_writer msg code) = Some code \<and>
   written (http_Error fresh_writer msg code) = msg @ [CHR 0x0A]"
  by (simp add: http_Error_def Write_def WriteHeader_def fresh_writer_def Let_def)

text \<open>
  Claim C3 asks for status 400, no scoring and a handler that goes on serving whenever the
  body is missing or empty. \<open>checkRequestBody\<close> tests \<open>r.Body == nil\<close> only. A body
  that is present and holds no byte passes the test; \<open>Decode\<close> then returns \<open>io.EOF\<close>
  and the handler ends in \<open>panic(err)\<close> with nothing written, whatever the method and
  the writer are.
\<close>

theorem empty_body_panics:
  "PrioritizeRoute unmarshal marshal priorityMethod w \<lparr>Body = Some []\<rparr> =
     (Panic (PanicError io_EOF), w)"
  by (simp add: PrioritizeRoute_def checkRequestBody_def Decode_def)

lemma decode_failure_panics:
  assumes "Body r = Some b" and "Decode unmarshal b = Inl err"
  shows "PrioritizeRoute unmarshal marshal priorityMethod w r = (Panic (PanicError err), w)"
  using assms by (simp add: PrioritizeRoute_def checkRequestBody_def)

lemma conn_serve_panic:
  assumes "handler fresh_writer r = (Panic v, w)"
  shows "conn_serve handler r = (ConnectionClosed, Serving)"
  using assms by (simp add: conn_serve_def)

text \<open>
  Claim C4, as the code has it. When the body is present and \<open>Decode\<close> fails on it, the
  handler ends in a panic that carries the decode error, and it has written neither
  status nor header nor body: no HTTP error response is produced. The process does not
  terminate: the server recovers the panic, closes the connection and goes on serving.
\<close>

theorem undecodable_body_panics:
  assumes "Body r = Some b" and "Decode unmarshal b = Inl err"
  shows "PrioritizeRoute unmarshal marshal priorityMethod w r = (Panic (PanicError err), w) \<and>
         conn_serve (PrioritizeRoute unmarshal marshal priorityMethod) r =
           (ConnectionClosed, Serving)"
proof -
  have panics:
    "PrioritizeRoute unmarshal marshal priorityMethod w' r = (Panic (PanicError err), w')" for w'
    using assms by (rule decode_failure_panics)
  then have "conn_serve (PrioritizeRoute unmarshal marshal priorityMethod) r =
      (ConnectionClosed, Serving)"
    by (rule conn_serve_panic)
  with panics show ?thesis by simp
qed

theorem undecodable_body_panics_witness:
  "Body \<lparr>Body = Some ''{''\<rparr> = Some ''{'' \<and>
   Decode strict_unmarshal ''{'' = Inl (Err ''invalid character'') \<and>
   PrioritizeRoute strict_unmarshal null_marshal ImagePriority fresh_writer \<lparr>Body = Some ''{''\<rparr> =
     (Panic (PanicError (Err ''invalid character'')), fresh_writer) \<and>
   conn_serve (PrioritizeRoute strict_unmarshal null_marshal ImagePriority) \<lparr>Body = Some ''{''\<rparr> =
     (ConnectionClosed, Serving)"
proof -
  have h1: "Body \<lparr>Body = Some ''{''\<rparr> = Some ''{''"
    by simp
  have h2: "Decode strict_unmarshal ''{'' = Inl (Err ''invalid character'')"
    by (simp add: Decode_def strict_unmarshal_def)
  show ?thesis
    using h1 h2 undecodable_body_panics [OF h1 h2, of null_marshal ImagePriority fresh_writer]
    by simp
qed

text \<open>
  Claim C4 as stated, with the process terminated, fails for a body that the decoder
  rejects: the process is serving after the request.
\<close>

theorem undecodable_body_counterexample:
  "Decode strict_unmarshal ''pod'' = Inl (Err ''invalid character'') \<and>
   conn_serve (PrioritizeRoute strict_unmarshal null_marshal ImagePriority) \<lparr>Body = Some ''pod''\<rparr> =
     (ConnectionClosed, Serving) \<and>
   Serving \<noteq> Exited"
  by (simp add: conn_serve_def PrioritizeRoute_def checkRequestBody_def Decode_def
      strict_unmarshal_def)

section \<open>Prefixes and routes\<close>

lemma with_leading_slash_eq:
  "with_leading_slash s = (if strings_HasPrefix s ''/'' then s else ''/'' @ s)"
  by (cases s) (simp_all add: strings_HasPrefix_def)

lemma with_leading_slash_HasPrefix: "strings_HasPrefix (with_leading_slash s @ t) ''/''"
  by (cases s) (simp_all add: strings_HasPrefix_def)


lemma init_prioritiesPrefix:
  "prioritiesPrefix (init f) =
     with_leading_slash (apiPrefix f) @ with_leading_slash (prioritiesPrefix f)"
  by (simp add: init_def with_leading_slash_eq Let_def)

text \<open>After \<open>init\<close> the path of a registration always begins with a slash.\<close>

lemma AddPrioritizeFunc_init:
  "AddPrioritizeFunc accepts (init f) router M =
     (if \<not> catch_all_inside (route_path f M) \<and> accepts router (route_path f M)
      then Return (router @ [\<lparr>verb = ''POST'', path = route_path f M, handle = M\<rparr>])
      else Panic (PathRefused (route_path f M)))"
  by (simp add: AddPrioritizeFunc_def router_POST_def init_prioritiesPrefix route_path_def
      with_leading_slash_HasPrefix Let_def)

lemma registerAll_accepted:
  assumes "list_all (\<lambda>M. \<not> catch_all_inside (route_path f M) \<and>
                          (\<forall>router. accepts router (route_path f M))) ms"
  shows "registerAll accepts (init f) router ms =
     Return (router @ map (\<lambda>M. \<lparr>verb = ''POST'', path = route_path f M, handle = M\<rparr>) ms)"
  using assms by (induction ms arbitrary: router) (simp_all add: AddPrioritizeFunc_init)

lemma main_process_cases:
  "main_process accepts f =
     (if \<not> catch_all_inside (route_path f ImagePriority) \<and> accepts [] (route_path f ImagePriority)
      then (Serving, [\<lparr>verb = ''POST'', path = route_path f ImagePriority, handle = ImagePriority\<rparr>])
      else (Exited, []))"
  by (simp add: main_process_def main_router_def priorities_def AddPrioritizeFunc_init)

text \<open>A star anywhere in a prefix is a catch-all before the last path element.\<close>

lemma star_refused: "CHR ''*'' \<in> set s \<Longrightarrow> catch_all_inside (s @ CHR ''/'' # t)"
  by (induction s) auto

lemma star_with_leading_slash: "CHR ''*'' \<in> set s \<Longrightarrow> CHR ''*'' \<in> set (with_leading_slash s)"
  by (cases s) auto

lemma starred_prefix_exits:
  assumes "CHR ''*'' \<in> set (apiPrefix f) \<or> CHR ''*'' \<in> set (prioritiesPrefix f)"
  shows "main_process accepts f = (Exited, [])"
proof -
  have "CHR ''*'' \<in> set (with_leading_slash (apiPrefix f) @ with_leading_slash (prioritiesPrefix f))"
    using assms star_with_leading_slash by auto
  then have "catch_all_inside (route_path f ImagePriority)"
    unfolding route_path_def using star_refused by fastforce
  then show ?thesis
    by (simp add: main_process_cases)
qed






end
